theory Spec2Isabelle
  imports Complex_Main "HOL-Library.Word" "HOL-Library.Multiset"
begin

section \<open>JavaScript values used by the retrieval pipeline\<close>

text \<open>
  A JavaScript string is a sequence of UTF-16 code units; \<open>text.length\<close> counts code
  units. Indices and lengths are integers (the code only ever forms integer-valued
  numbers from them), so they are modelled as \<open>int\<close>.
\<close>

type_synonym utf16 = "16 word"
type_synonym jsstring = "utf16 list"

definition js_length :: "'a list \<Rightarrow> int" where
  "js_length xs = int (length xs)"

text \<open>
  \<open>xs.slice(start, end)\<close> on strings and arrays: a negative index counts from the
  end, both indices are clamped to \<open>[0, length]\<close>, and an empty span is returned when
  the clamped end does not exceed the clamped start.
\<close>

definition js_slice :: "'a list \<Rightarrow> int \<Rightarrow> int \<Rightarrow> 'a list" where
  "js_slice xs start end' =
     (let len = js_length xs;
          from = (if start < 0 then max (len + start) 0 else min start len);
          to = (if end' < 0 then max (len + end') 0 else min end' len)
      in take (nat (to - from)) (drop (nat from) xs))"

text \<open>
  \<open>text.lastIndexOf(c, fromIndex)\<close> for a one-character search string: the greatest
  index \<open>i\<close> with \<open>i \<le> fromIndex\<close> (clamped to \<open>[0, length - 1]\<close>) and \<open>text[i] = c\<close>,
  or \<open>-1\<close> when there is none.
\<close>

fun last_index_below :: "'a list \<Rightarrow> 'a \<Rightarrow> nat \<Rightarrow> int" where
  "last_index_below text c 0 = -1"
| "last_index_below text c (Suc n) =
     (if text ! n = c then int n else last_index_below text c n)"

definition lastIndexOf :: "'a list \<Rightarrow> 'a \<Rightarrow> int \<Rightarrow> int" where
  "lastIndexOf text c fromIndex =
     last_index_below text c (nat (min (max fromIndex 0) (js_length text - 1) + 1))"

text \<open>
  \<open>String.prototype.trim\<close> strips the ECMAScript white space and line terminator code
  units from both ends.
\<close>

definition is_whitespace :: "utf16 \<Rightarrow> bool" where
  "is_whitespace c \<longleftrightarrow>
     c \<in> set [0x0009, 0x000A, 0x000B, 0x000C, 0x000D, 0x0020, 0x00A0, 0x1680,
              0x2000, 0x2001, 0x2002, 0x2003, 0x2004, 0x2005, 0x2006, 0x2007,
              0x2008, 0x2009, 0x200A, 0x2028, 0x2029, 0x202F, 0x205F, 0x3000, 0xFEFF]"

definition trim :: "jsstring \<Rightarrow> jsstring" where
  "trim s = rev (dropWhile is_whitespace (rev (dropWhile is_whitespace s)))"

text \<open>
  A JavaScript number is an IEEE double. The model keeps its special values (\<open>NaN\<close> and
  the two infinities) and takes a real for every finite value, so rounding, overflow
  and the sign of zero are not represented. The properties below use the arithmetic only
  through the order of similarity scores and the sign of their difference, which a
  double subtraction of two finite values always gets right.
\<close>

datatype number = NaN | NegInf | Num real | PosInf

fun js_neg :: "number \<Rightarrow> number" where
  "js_neg NaN = NaN"
| "js_neg NegInf = PosInf"
| "js_neg PosInf = NegInf"
| "js_neg (Num a) = Num (- a)"

fun js_add :: "number \<Rightarrow> number \<Rightarrow> number" where
  "js_add NaN y = NaN"
| "js_add x NaN = NaN"
| "js_add (Num a) (Num b) = Num (a + b)"
| "js_add PosInf NegInf = NaN"
| "js_add NegInf PosInf = NaN"
| "js_add PosInf y = PosInf"
| "js_add NegInf y = NegInf"
| "js_add (Num a) y = y"

definition js_sub :: "number \<Rightarrow> number \<Rightarrow> number" where
  "js_sub x y = js_add x (js_neg y)"

fun sign_of :: "number \<Rightarrow> real" where
  "sign_of NaN = 0"
| "sign_of NegInf = -1"
| "sign_of PosInf = 1"
| "sign_of (Num a) = sgn a"

definition infinity_of_sign :: "real \<Rightarrow> number" where
  "infinity_of_sign s = (if 0 < s then PosInf else if s < 0 then NegInf else NaN)"

fun js_mul :: "number \<Rightarrow> number \<Rightarrow> number" where
  "js_mul NaN y = NaN"
| "js_mul x NaN = NaN"
| "js_mul (Num a) (Num b) = Num (a * b)"
| "js_mul x y = infinity_of_sign (sign_of x * sign_of y)"

fun js_div :: "number \<Rightarrow> number \<Rightarrow> number" where
  "js_div NaN y = NaN"
| "js_div x NaN = NaN"
| "js_div (Num a) (Num b) = (if b = 0 then infinity_of_sign (sgn a) else Num (a / b))"
| "js_div (Num a) y = Num 0"
| "js_div x (Num b) = infinity_of_sign (sign_of x * (if b < 0 then -1 else 1))"
| "js_div x y = NaN"

fun js_sqrt :: "number \<Rightarrow> number" where
  "js_sqrt NaN = NaN"
| "js_sqrt NegInf = NaN"
| "js_sqrt PosInf = PosInf"
| "js_sqrt (Num a) = (if a < 0 then NaN else Num (sqrt a))"

text \<open>The comparisons \<open>x < y\<close> and \<open>x >= y\<close>: both are false when an operand is \<open>NaN\<close>.\<close>

fun js_lt :: "number \<Rightarrow> number \<Rightarrow> bool" where
  "js_lt NaN y = False"
| "js_lt x NaN = False"
| "js_lt (Num a) (Num b) = (a < b)"
| "js_lt PosInf y = False"
| "js_lt x NegInf = False"
| "js_lt NegInf y = True"
| "js_lt (Num a) PosInf = True"

definition js_ge :: "number \<Rightarrow> number \<Rightarrow> bool" where
  "js_ge x y \<longleftrightarrow> x \<noteq> NaN \<and> y \<noteq> NaN \<and> \<not> js_lt x y"

text \<open>
  \<open>xs.sort(cmp)\<close>. The sort is stable, and a comparator result that is \<open>NaN\<close> counts as
  \<open>0\<close>: an element moves behind another only when the comparator returns a number
  greater than zero. For a consistent comparator this determines the result, whatever
  the engine's algorithm; \<open>js_sort\<close> computes it by insertion. For a comparator that is
  not consistent ECMAScript leaves the order to the engine, and \<open>js_sort\<close> then is the
  insertion order that engines produce on short arrays.
\<close>

fun insert_by :: "('a \<Rightarrow> 'a \<Rightarrow> number) \<Rightarrow> 'a \<Rightarrow> 'a list \<Rightarrow> 'a list" where
  "insert_by cmp x [] = [x]"
| "insert_by cmp x (y # ys) =
     (if js_lt (Num 0) (cmp x y) then y # insert_by cmp x ys else x # y # ys)"

fun js_sort :: "('a \<Rightarrow> 'a \<Rightarrow> number) \<Rightarrow> 'a list \<Rightarrow> 'a list" where
  "js_sort cmp [] = []"
| "js_sort cmp (x # xs) = insert_by cmp x (js_sort cmp xs)"

section \<open>The chunker (\<open>chunkText\<close>)\<close>

record TextChunk =
  content :: jsstring
  startIndex :: int
  endIndex :: int

definition CHUNK_SIZE :: int where
  "CHUNK_SIZE = 512"

definition CHUNK_OVERLAP :: int where
  "CHUNK_OVERLAP = 50"

definition full_stop :: utf16 where
  "full_stop = 0x002E"

definition space_char :: utf16 where
  "space_char = 0x0020"

text \<open>
  The end of the window that starts at \<open>start\<close> (lines 38 to 50 of the source). The
  source compares \<open>sentenceEnd > start + CHUNK_SIZE * 0.5\<close>; both sides are doubled
  here so that the comparison stays within the integers and is exact for any
  \<open>CHUNK_SIZE\<close>.
\<close>

definition chunk_end :: "jsstring \<Rightarrow> int \<Rightarrow> int" where
  "chunk_end text start =
     (let end0 = min (start + CHUNK_SIZE) (js_length text)
      in if end0 < js_length text then
           (let sentenceEnd = lastIndexOf text full_stop end0;
                wordEnd = lastIndexOf text space_char end0
            in if 2 * sentenceEnd > 2 * start + CHUNK_SIZE then sentenceEnd + 1
               else if 2 * wordEnd > 2 * start + CHUNK_SIZE then wordEnd
               else end0)
         else end0)"

text \<open>
  One pass through the body of the \<open>while\<close> loop pushes at most one chunk (lines 52 to
  59) and computes the next start (line 62).
\<close>

definition push_chunk :: "jsstring \<Rightarrow> int \<Rightarrow> int \<Rightarrow> TextChunk list \<Rightarrow> TextChunk list" where
  "push_chunk text start end' chunks =
     (let c = trim (js_slice text start end')
      in if js_length c > 0
         then chunks @ [\<lparr>content = c, startIndex = start, endIndex = end'\<rparr>]
         else chunks)"

definition next_start :: "jsstring \<Rightarrow> int \<Rightarrow> int" where
  "next_start text start = chunk_end text start - CHUNK_OVERLAP"

text \<open>
  The \<open>while\<close> loop of lines 37 to 64. The loop is not known to end, so it is a partial
  function: the value \<open>None\<close> means that the loop never leaves.
\<close>

partial_function (option) chunk_loop ::
  "jsstring \<Rightarrow> int \<Rightarrow> TextChunk list \<Rightarrow> TextChunk list option" where
  "chunk_loop text start chunks =
     (if start < js_length text then
        (if next_start text start \<ge> js_length text
         then Some (push_chunk text start (chunk_end text start) chunks)
         else chunk_loop text (next_start text start)
                (push_chunk text start (chunk_end text start) chunks))
      else Some chunks)"

definition chunkText :: "jsstring \<Rightarrow> TextChunk list option" where
  "chunkText text =
     (if js_length text \<le> CHUNK_SIZE
      then Some [\<lparr>content = text, startIndex = 0, endIndex = js_length text\<rparr>]
      else chunk_loop text 0 [])"

declare chunk_loop.simps [code]

text \<open>
  The state of the loop at its head after \<open>n\<close> passes through its body: the next start
  and the chunks pushed so far. It is \<open>None\<close> when the loop was left before.
\<close>

fun loop_passes :: "nat \<Rightarrow> jsstring \<Rightarrow> int \<Rightarrow> TextChunk list \<Rightarrow> (int \<times> TextChunk list) option" where
  "loop_passes 0 text start acc = Some (start, acc)"
| "loop_passes (Suc n) text start acc =
     (if start < js_length text then
        (if next_start text start \<ge> js_length text then None
         else loop_passes n text (next_start text start)
                (push_chunk text start (chunk_end text start) acc))
      else None)"

section \<open>The similarity engine (\<open>cosineSimilarity\<close>)\<close>

text \<open>A thrown \<open>Error\<close> carries its message.\<close>

datatype js_error = Error string

text \<open>
  The error that \<open>cosineSimilarity\<close> throws when the two vectors differ in length (line
  97), the dimension mismatch of the error taxonomy.
\<close>

definition DimensionMismatch :: js_error where
  "DimensionMismatch = Error ''Vectors must have the same length''"

text \<open>
  The \<open>for\<close> loop of lines 104 to 108 visits the indices \<open>0 .. a.length - 1\<close> and carries
  \<open>(dotProduct, normA, normB)\<close>.
\<close>

definition cosine_step :: "number list \<Rightarrow> number list \<Rightarrow> nat
    \<Rightarrow> number \<times> number \<times> number \<Rightarrow> number \<times> number \<times> number" where
  "cosine_step a b i acc =
     (case acc of (dotProduct, normA, normB) \<Rightarrow>
        (js_add dotProduct (js_mul (a ! i) (b ! i)),
         js_add normA (js_mul (a ! i) (a ! i)),
         js_add normB (js_mul (b ! i) (b ! i))))"

definition cosineSimilarity :: "number list \<Rightarrow> number list \<Rightarrow> js_error + number" where
  "cosineSimilarity a b =
     (if length a \<noteq> length b then Inl DimensionMismatch
      else (case fold (cosine_step a b) [0 ..< length a] (Num 0, Num 0, Num 0) of
              (dotProduct, normA, normB) \<Rightarrow>
                Inr (js_div dotProduct (js_mul (js_sqrt normA) (js_sqrt normB)))))"

section \<open>Documents and chunks\<close>

record Document =
  doc_id :: jsstring
  doc_name :: jsstring
  doc_type :: jsstring
  doc_size :: int
  doc_content :: jsstring
  uploadDate :: jsstring
  chunkCount :: int

text \<open>
  A stored chunk extends the chunker's \<open>{content, startIndex, endIndex}\<close>. The \<open>type\<close>
  field is absent from the chunks that \<open>processDocument\<close> builds.
\<close>

record DocumentChunk = TextChunk +
  chunk_id :: jsstring
  documentId :: jsstring
  embedding :: "number list"
  chunk_type :: "jsstring option"

section \<open>Ingestion (\<open>processDocument\<close>)\<close>

text \<open>
  The embedding model is an external library and \<open>generateUUID\<close> lives in another
  module: the model is a parameter \<open>generateEmbedding\<close> that returns a vector or fails,
  and \<open>generateUUID\<close> gives the identifier that the \<open>i\<close>-th call of one run returns. The optional callback
  \<open>onProgress\<close> acts on a state of the caller; \<open>onProgress?.(p)\<close> does nothing when
  no callback was passed.
\<close>

type_synonym embedder = "jsstring \<Rightarrow> js_error + number list"





section \<open>Search (\<open>searchSimilarChunks\<close>) and its caller\<close>

record ScoredChunk =
  chunk :: DocumentChunk
  similarity :: number

text \<open>
  Line 162: \<open>chunks.map\<close> scores the candidates in order; the first
  \<open>cosineSimilarity\<close> that throws ends the whole search with its error.
\<close>

fun score_chunks :: "number list \<Rightarrow> DocumentChunk list \<Rightarrow> js_error + ScoredChunk list" where
  "score_chunks queryEmbedding [] = Inr []"
| "score_chunks queryEmbedding (c # cs) =
     (case cosineSimilarity queryEmbedding (embedding c) of
        Inl e \<Rightarrow> Inl e
      | Inr s \<Rightarrow>
          (case score_chunks queryEmbedding cs of
             Inl e \<Rightarrow> Inl e
           | Inr rest \<Rightarrow> Inr (\<lparr>chunk = c, similarity = s\<rparr> # rest)))"

text \<open>The comparator of line 169: \<open>(a, b) => b.similarity - a.similarity\<close>.\<close>

definition by_similarity :: "ScoredChunk \<Rightarrow> ScoredChunk \<Rightarrow> number" where
  "by_similarity a b = js_sub (similarity b) (similarity a)"

text \<open>
  \<open>topK\<close> is the integer that the caller passes (the default \<open>5\<close> applies only when the
  argument is left out).
\<close>

definition searchSimilarChunks :: "embedder \<Rightarrow> jsstring \<Rightarrow> DocumentChunk list \<Rightarrow> int
    \<Rightarrow> js_error + ScoredChunk list" where
  "searchSimilarChunks generateEmbedding query chunks topK =
     (if js_length chunks = 0 then Inr []
      else (case generateEmbedding query of
              Inl e \<Rightarrow> Inl e
            | Inr queryEmbedding \<Rightarrow>
                (case score_chunks queryEmbedding chunks of
                   Inl e \<Rightarrow> Inl e
                 | Inr similarities \<Rightarrow>
                     Inr (js_slice (js_sort by_similarity similarities) 0 topK))))"

text \<open>
  The retrieval step of \<open>onSubmit\<close> in \<open>chat.tsx\<close> (lines 83 to 92): with no stored
  chunk nothing is retrieved; otherwise the search runs with \<open>ragMaxResults\<close> and its
  results are filtered by \<open>result.similarity >= ragSimilarityThreshold\<close>. An error is
  what the surrounding \<open>catch\<close> receives.
\<close>

definition filteredResults :: "embedder \<Rightarrow> jsstring \<Rightarrow> DocumentChunk list \<Rightarrow> int \<Rightarrow> number
    \<Rightarrow> js_error + ScoredChunk list" where
  "filteredResults generateEmbedding input chunks ragMaxResults ragSimilarityThreshold =
     (if js_length chunks = 0 then Inr []
      else (case searchSimilarChunks generateEmbedding input chunks ragMaxResults of
              Inl e \<Rightarrow> Inl e
            | Inr results \<Rightarrow>
                Inr (filter (\<lambda>result. js_ge (similarity result) ragSimilarityThreshold) results)))"

text \<open>
  The query operation as the specification words it, for comparison with
  \<open>filteredResults\<close>: rank all candidates by similarity, keep those at or above the
  threshold, then truncate to the first \<open>k\<close>.
\<close>

definition query_filter_then_truncate :: "embedder \<Rightarrow> jsstring \<Rightarrow> DocumentChunk list \<Rightarrow> int \<Rightarrow> number
    \<Rightarrow> js_error + ScoredChunk list" where
  "query_filter_then_truncate generateEmbedding queryText allChunks k similarityThreshold =
     (if allChunks = [] then Inr []
      else (case generateEmbedding queryText of
              Inl e \<Rightarrow> Inl e
            | Inr queryEmbedding \<Rightarrow>
                (case score_chunks queryEmbedding allChunks of
                   Inl e \<Rightarrow> Inl e
                 | Inr similarities \<Rightarrow>
                     Inr (take (nat k)
                            (filter (\<lambda>result. js_ge (similarity result) similarityThreshold)
                               (js_sort by_similarity similarities))))))"

text \<open>Descending order of the similarities of a result list, with JavaScript's \<open>>=\<close>.\<close>

definition descending :: "ScoredChunk list \<Rightarrow> bool" where
  "descending rs = sorted_wrt (\<lambda>x y. js_ge (similarity x) (similarity y)) rs"

section \<open>The document store\<close>

text \<open>
  The two object stores of the IndexedDB database, each a list of records keyed by the
  record's identifier; the order in which a store lists its records is not modelled.
\<close>

record RAGDatabase =
  documents :: "Document list"
  chunks :: "DocumentChunk list"

definition getDocumentById :: "jsstring \<Rightarrow> RAGDatabase \<Rightarrow> Document option" where
  "getDocumentById ident db = find (\<lambda>d. doc_id d = ident) (documents db)"

definition getChunksByDocumentId :: "jsstring \<Rightarrow> RAGDatabase \<Rightarrow> DocumentChunk list" where
  "getChunksByDocumentId ident db = filter (\<lambda>c. documentId c = ident) (chunks db)"

text \<open>
  \<open>store.add\<close> fails on a key that is already present, and the failed request aborts the
  transaction of \<open>addDocumentChunks\<close>, so that none of the batch is stored.
\<close>

definition ConstraintError :: js_error where
  "ConstraintError = Error ''Key already exists in the object store.''"

fun add_chunks :: "DocumentChunk list \<Rightarrow> DocumentChunk list \<Rightarrow> js_error + DocumentChunk list" where
  "add_chunks [] stored = Inr stored"
| "add_chunks (c # cs) stored =
     (if chunk_id c \<in> set (map chunk_id stored) then Inl ConstraintError
      else add_chunks cs (stored @ [c]))"

definition addDocumentChunks :: "DocumentChunk list \<Rightarrow> RAGDatabase \<Rightarrow> js_error + RAGDatabase" where
  "addDocumentChunks cs db =
     (case add_chunks cs (chunks db) of
        Inl e \<Rightarrow> Inl e
      | Inr stored \<Rightarrow> Inr (db\<lparr>chunks := stored\<rparr>))"

text \<open>
  The three kinds of request that \<open>deleteDocument\<close> issues inside its transaction:
  \<open>objectStore('documents').delete(id)\<close>,
  \<open>objectStore('chunks').index('by-document').getAllKeys(id)\<close> and
  \<open>objectStore('chunks').delete(chunkKey)\<close>. Deleting a key that is not stored is not
  an error.
\<close>

definition delete_document_record :: "jsstring \<Rightarrow> RAGDatabase \<Rightarrow> RAGDatabase" where
  "delete_document_record ident db = db\<lparr>documents := filter (\<lambda>d. doc_id d \<noteq> ident) (documents db)\<rparr>"

definition chunk_keys_by_document :: "jsstring \<Rightarrow> RAGDatabase \<Rightarrow> jsstring list" where
  "chunk_keys_by_document ident db = map chunk_id (filter (\<lambda>c. documentId c = ident) (chunks db))"

definition delete_chunk_record :: "jsstring \<Rightarrow> RAGDatabase \<Rightarrow> RAGDatabase" where
  "delete_chunk_record chunkKey db = db\<lparr>chunks := filter (\<lambda>c. chunk_id c \<noteq> chunkKey) (chunks db)\<rparr>"

text \<open>The store after a \<open>deleteDocument\<close> that ran to the end of its transaction.\<close>

definition deleteDocument :: "jsstring \<Rightarrow> RAGDatabase \<Rightarrow> RAGDatabase" where
  "deleteDocument ident db =
     (let db1 = delete_document_record ident db
      in fold delete_chunk_record (chunk_keys_by_document ident db1) db1)"

text \<open>
  The transaction of \<open>deleteDocument\<close>, request by request. IndexedDB applies the
  requests of a transaction to the stores as one unit: until the commit every other
  reader sees the stores as they were (\<open>stored\<close>), the requests act on the transaction's
  own view (\<open>working\<close>), and an abort (a failed request, a closed tab) discards
  that view. \<open>pc\<close> is the point the function has reached.
\<close>

datatype tx_pc =
    AtDeleteDocument
  | AtGetAllKeys
  | AtDeleteChunks "jsstring list"
  | Committed
  | Aborted

record tx_state =
  stored :: RAGDatabase
  working :: RAGDatabase
  pc :: tx_pc

definition tx_begin :: "RAGDatabase \<Rightarrow> tx_state" where
  "tx_begin db = \<lparr>stored = db, working = db, pc = AtDeleteDocument\<rparr>"

inductive tx_step :: "jsstring \<Rightarrow> tx_state \<Rightarrow> tx_state \<Rightarrow> bool" for ident where
  delete_document:
    "pc s = AtDeleteDocument \<Longrightarrow>
     tx_step ident s (s\<lparr>working := delete_document_record ident (working s), pc := AtGetAllKeys\<rparr>)"
| get_all_keys:
    "pc s = AtGetAllKeys \<Longrightarrow>
     tx_step ident s (s\<lparr>pc := AtDeleteChunks (chunk_keys_by_document ident (working s))\<rparr>)"
| delete_chunk:
    "pc s = AtDeleteChunks (chunkKey # rest) \<Longrightarrow>
     tx_step ident s (s\<lparr>working := delete_chunk_record chunkKey (working s), pc := AtDeleteChunks rest\<rparr>)"
| commit:
    "pc s = AtDeleteChunks [] \<Longrightarrow>
     tx_step ident s (s\<lparr>stored := working s, pc := Committed\<rparr>)"
| abort:
    "pc s \<noteq> Committed \<Longrightarrow> pc s \<noteq> Aborted \<Longrightarrow>
     tx_step ident s (s\<lparr>working := stored s, pc := Aborted\<rparr>)"

section \<open>Predicates and example data for the properties\<close>

text \<open>
  The two offset properties of a chunk sequence: start offsets strictly increase along
  the sequence, and every chunk ends after its start.
\<close>

definition chunk_offsets_ok :: "TextChunk list \<Rightarrow> bool" where
  "chunk_offsets_ok cs \<longleftrightarrow>
     sorted_wrt (<) (map startIndex cs) \<and> list_all (\<lambda>c. startIndex c < endIndex c) cs"








text \<open>
  What holds at each point of the transaction of \<open>deleteDocument ident\<close> that began on
  the store \<open>db\<close>.
\<close>

definition tx_invariant :: "jsstring \<Rightarrow> RAGDatabase \<Rightarrow> tx_state \<Rightarrow> bool" where
  "tx_invariant ident db s =
     (case pc s of
        AtDeleteDocument \<Rightarrow> stored s = db \<and> working s = db
      | AtGetAllKeys \<Rightarrow> stored s = db \<and> working s = delete_document_record ident db
      | AtDeleteChunks ks \<Rightarrow>
          stored s = db \<and> fold delete_chunk_record ks (working s) = deleteDocument ident db
      | Committed \<Rightarrow> stored s = deleteDocument ident db
      | Aborted \<Rightarrow> stored s = db)"

text \<open>
  Example data: an embedder that maps every text to the unit vector \<open>(1, 0)\<close>, chunks
  with a one-letter key, an owning document and an embedding, and a store of two
  documents with three chunks.
\<close>

definition example_embedder :: embedder where
  "example_embedder q = Inr [Num 1, Num 0]"


definition example_document :: "utf16 \<Rightarrow> jsstring \<Rightarrow> Document" where
  "example_document k body =
     \<lparr>doc_id = [k], doc_name = [], doc_type = [], doc_size = js_length body,
      doc_content = body, uploadDate = [], chunkCount = 0\<rparr>"

definition example_chunk :: "utf16 \<Rightarrow> utf16 \<Rightarrow> number list \<Rightarrow> DocumentChunk" where
  "example_chunk k d e =
     \<lparr>content = [k], startIndex = 0, endIndex = 1, chunk_id = [k], documentId = [d],
      embedding = e, chunk_type = None\<rparr>"

text \<open>
  Against the query embedding \<open>(1, 0)\<close> the similarities of these chunks are \<open>0\<close>, \<open>1\<close>,
  \<open>0\<close> and \<open>NaN\<close> (a zero vector); the last one has an embedding of another length.
\<close>

definition chunk_A :: DocumentChunk where
  "chunk_A = example_chunk 0x41 0x64 [Num 0, Num 1]"

definition chunk_B :: DocumentChunk where
  "chunk_B = example_chunk 0x42 0x64 [Num 1, Num 0]"

definition chunk_C :: DocumentChunk where
  "chunk_C = example_chunk 0x43 0x64 [Num 0, Num 2]"

definition chunk_Z :: DocumentChunk where
  "chunk_Z = example_chunk 0x5A 0x64 [Num 0, Num 0]"

definition chunk_M :: DocumentChunk where
  "chunk_M = example_chunk 0x4D 0x64 [Num 1]"

definition example_db :: RAGDatabase where
  "example_db =
     \<lparr>documents = [example_document 0x64 [0x61], example_document 0x65 [0x62]],
      chunks = [example_chunk 0x31 0x64 [Num 1], example_chunk 0x32 0x65 [Num 1],
                example_chunk 0x33 0x64 [Num 0]]\<rparr>"



section \<open>Properties of the chunker\<close>

lemma last_index_below_less: "last_index_below text c n < int n"
  by (induction n) auto

lemma lastIndexOf_less_length: "lastIndexOf text c i < js_length text"
proof -
  define n where "n = nat (min (max i 0) (js_length text - 1) + 1)"
  have "last_index_below text c n < int n"
    by (rule last_index_below_less)
  moreover have "int n \<le> js_length text"
    unfolding n_def js_length_def by (cases "text") auto
  ultimately show ?thesis
    by (simp add: lastIndexOf_def n_def)
qed

lemma chunk_end_le_length: "chunk_end text start \<le> js_length text"
proof -
  let ?end0 = "min (start + CHUNK_SIZE) (js_length text)"
  have "lastIndexOf text full_stop ?end0 + 1 \<le> js_length text"
    using lastIndexOf_less_length [of "text" full_stop ?end0] by simp
  moreover have "lastIndexOf text space_char ?end0 \<le> js_length text"
    using lastIndexOf_less_length [of "text" space_char ?end0] by simp
  ultimately show ?thesis
    by (auto simp: chunk_end_def Let_def min_def)
qed

text \<open>Every window ends after its start, whichever boundary is taken.\<close>

lemma chunk_end_greater_start:
  "start < js_length text \<Longrightarrow> start < chunk_end text start"
  by (auto simp: chunk_end_def Let_def CHUNK_SIZE_def min_def)

text \<open>
  The next start is \<open>end - 50\<close> with \<open>end\<close> at most the length of the text, so it is
  always inside the text: the exit test of line 63 never holds, and neither does the
  negation of the loop condition once the loop was entered.
\<close>

lemma next_start_less_length: "next_start text start < js_length text"
  using chunk_end_le_length [of "text" start] by (simp add: next_start_def CHUNK_OVERLAP_def)

lemma chunk_loop_never_returns:
  assumes "chunk_loop text start acc = Some r"
  shows "js_length text \<le> start"
proof (rule chunk_loop.raw_induct [where P = "\<lambda>t s a r. js_length t \<le> s", OF _ assms])
  fix loop :: "jsstring \<Rightarrow> int \<Rightarrow> TextChunk list \<Rightarrow> TextChunk list option"
  fix t s a r
  assume IH: "\<And>t s a r. loop t s a = Some r \<Longrightarrow> js_length t \<le> s"
  assume body:
    "(if s < js_length t
      then if js_length t \<le> next_start t s
           then Some (push_chunk t s (chunk_end t s) a)
           else loop t (next_start t s) (push_chunk t s (chunk_end t s) a)
      else Some a) = Some r"
  show "js_length t \<le> s"
  proof (rule ccontr)
    assume "\<not> js_length t \<le> s"
    then have inside: "s < js_length t" by simp
    have nxt: "next_start t s < js_length t"
      by (rule next_start_less_length)
    with inside body
    have "loop t (next_start t s) (push_chunk t s (chunk_end t s) a) = Some r"
      by (simp split: if_splits)
    then have "js_length t \<le> next_start t s"
      by (rule IH)
    with nxt show False by simp
  qed
qed

text \<open>
  So \<open>chunkText\<close> returns on no text that is longer than \<open>CHUNK_SIZE\<close>: the loop starts
  at \<open>0\<close>, inside the text.
\<close>

lemma chunkText_long_diverges:
  assumes "CHUNK_SIZE < js_length text"
  shows "chunkText text = None"
proof (cases "chunkText text")
  case None
  then show ?thesis .
next
  case (Some r)
  with assms have "chunk_loop text 0 [] = Some r"
    by (simp add: chunkText_def)
  then have "js_length text \<le> 0"
    by (rule chunk_loop_never_returns)
  with assms show ?thesis
    by (simp add: CHUNK_SIZE_def)
qed

lemma chunkText_returns_iff:
  "(\<exists>cs. chunkText text = Some cs) \<longleftrightarrow> js_length text \<le> CHUNK_SIZE"
proof
  assume "\<exists>cs. chunkText text = Some cs"
  then show "js_length text \<le> CHUNK_SIZE"
    using chunkText_long_diverges [of "text"] by force
next
  assume "js_length text \<le> CHUNK_SIZE"
  then show "\<exists>cs. chunkText text = Some cs"
    by (simp add: chunkText_def)
qed

text \<open>
  C1. The claim: on every text the chunker terminates, each iteration advancing the start
  by at least one character. The code's loop does not end on a text of 513 letters
  \<open>a\<close>: its second window ends at the end of the text, the next start is \<open>513 - 50\<close>
  again and again, and \<open>chunkText\<close> never returns.
\<close>

theorem chunkText_513_never_returns:
  "chunkText (replicate 513 (0x61 :: utf16)) = None"
  by (rule chunkText_long_diverges) (simp add: CHUNK_SIZE_def js_length_def)

text \<open>
  C4. For every text of at most 512 code units, \<open>chunkText\<close> returns exactly one chunk:
  its content is the whole text as it is, its start is \<open>0\<close> and its end is the length
  of the text.
\<close>

theorem chunkText_short_single_chunk:
  assumes "length text \<le> 512"
  shows "chunkText text =
           Some [\<lparr>content = text, startIndex = 0, endIndex = int (length text)\<rparr>]"
  using assms by (simp add: chunkText_def CHUNK_SIZE_def js_length_def)

theorem chunkText_short_single_chunk_witness:
  "length [0x20, 0x61, 0x2E :: utf16] \<le> 512 \<and>
   chunkText [0x20, 0x61, 0x2E] =
     Some [\<lparr>content = [0x20, 0x61, 0x2E], startIndex = 0, endIndex = 3\<rparr>]"
  using chunkText_short_single_chunk [of "[0x20, 0x61, 0x2E]"] by simp

text \<open>
  C3, as stated, fails on the empty text: the short path returns one chunk with
  \<open>startIndex = endIndex = 0\<close>. (On a text longer than 512 code units the produced
  sequence also repeats a start offset once a window has reached the end of the text;
  that is the defect of C1, shown on 513 letters below.)
\<close>

theorem chunkText_empty_counterexample:
  "chunkText [] = Some [\<lparr>content = [], startIndex = 0, endIndex = 0\<rparr>] \<and>
   \<not> chunk_offsets_ok [\<lparr>content = [], startIndex = 0, endIndex = 0\<rparr>]"
  by (simp add: chunkText_def CHUNK_SIZE_def js_length_def chunk_offsets_ok_def)

text \<open>
  The passes of the loop. Inside a text the loop always goes on to a next pass, its
  states are states of \<open>chunk_loop\<close>, and each pass appends at most one chunk.
\<close>

lemma loop_passes_continues:
  "start < js_length text \<Longrightarrow> \<exists>start' produced. loop_passes n text start acc = Some (start', produced)"
proof (induction n arbitrary: start acc)
  case 0
  show ?case by simp
next
  case (Suc n)
  have "next_start text start < js_length text"
    by (rule next_start_less_length)
  with Suc show ?case by simp
qed

lemma loop_passes_unrolls:
  "loop_passes n text start acc = Some (start', produced) \<Longrightarrow>
   chunk_loop text start acc = chunk_loop text start' produced"
proof (induction n arbitrary: start acc)
  case 0
  then show ?case by simp
next
  case (Suc n)
  then show ?case
    by (subst chunk_loop.simps) (auto split: if_splits)
qed

lemma push_chunk_cases:
  "push_chunk text start e acc = acc \<or>
   push_chunk text start e acc =
     acc @ [\<lparr>content = trim (js_slice text start e), startIndex = start, endIndex = e\<rparr>]"
  by (simp add: push_chunk_def Let_def)

lemma loop_passes_extends:
  "loop_passes n text start acc = Some (start', produced) \<Longrightarrow> \<exists>ext. produced = acc @ ext"
proof (induction n arbitrary: start acc)
  case 0
  then show ?case by simp
next
  case (Suc n)
  then obtain ext where "produced = push_chunk text start (chunk_end text start) acc @ ext"
    by (fastforce split: if_splits)
  then show ?case
    using push_chunk_cases [of "text" start "chunk_end text start" acc] by auto
qed

text \<open>
  A window that ends before the end of the text moves the start forward; a window that
  ends at the end of the text does not move it back.
\<close>

lemma next_start_advances:
  assumes "start < js_length text"
  shows "chunk_end text start < js_length text \<Longrightarrow> start < next_start text start"
    and "start + CHUNK_OVERLAP \<le> js_length text \<Longrightarrow> start \<le> next_start text start"
  using assms
  by (auto simp: next_start_def chunk_end_def Let_def CHUNK_SIZE_def CHUNK_OVERLAP_def min_def
      split: if_splits)

text \<open>
  The invariant of the loop: every chunk pushed so far ends after its start, and every
  chunk that ended before the end of the text starts before the current start.
\<close>

lemma loop_passes_offsets:
  assumes "loop_passes n text start acc = Some (start', produced)"
    and "start + CHUNK_OVERLAP \<le> js_length text"
    and "list_all (\<lambda>c. startIndex c < endIndex c) acc"
    and "\<forall>c\<in>set acc. endIndex c < js_length text \<longrightarrow> startIndex c < start"
  shows "list_all (\<lambda>c. startIndex c < endIndex c) produced \<and>
         (sorted_wrt (<) (map startIndex acc) \<longrightarrow>
          list_all (\<lambda>c. endIndex c < js_length text) (butlast produced) \<longrightarrow>
          sorted_wrt (<) (map startIndex produced))"
  using assms
proof (induction n arbitrary: start acc)
  case 0
  then show ?case by simp
next
  case (Suc n)
  let ?e = "chunk_end text start"
  let ?acc1 = "push_chunk text start ?e acc"
  let ?new = "\<lparr>content = trim (js_slice text start ?e), startIndex = start, endIndex = ?e\<rparr>"
  from Suc.prems(1) have inside: "start < js_length text"
    and run: "loop_passes n text (next_start text start) ?acc1 = Some (start', produced)"
    by (auto split: if_splits)
  have shape: "?acc1 = acc \<or> ?acc1 = acc @ [?new]"
    by (rule push_chunk_cases)
  have e_gt: "start < ?e"
    using inside by (rule chunk_end_greater_start)
  have step: "start \<le> next_start text start"
    using inside Suc.prems(2) by (rule next_start_advances(2))
  have p2: "next_start text start + CHUNK_OVERLAP \<le> js_length text"
    using chunk_end_le_length [of "text" start] by (simp add: next_start_def)
  have p3: "list_all (\<lambda>c. startIndex c < endIndex c) ?acc1"
    using shape Suc.prems(3) e_gt by auto
  have p4: "\<forall>c\<in>set ?acc1. endIndex c < js_length text \<longrightarrow> startIndex c < next_start text start"
  proof
    fix c
    assume c: "c \<in> set ?acc1"
    show "endIndex c < js_length text \<longrightarrow> startIndex c < next_start text start"
    proof (cases "c \<in> set acc")
      case True
      with Suc.prems(4) step show ?thesis by fastforce
    next
      case False
      with c shape have "c = ?new" by auto
      then show ?thesis
        using next_start_advances(1) [OF inside] by simp
    qed
  qed
  note IH = Suc.IH [OF run p2 p3 p4]
  have "sorted_wrt (<) (map startIndex produced)"
    if srt: "sorted_wrt (<) (map startIndex acc)"
      and early: "list_all (\<lambda>c. endIndex c < js_length text) (butlast produced)"
  proof -
    have "sorted_wrt (<) (map startIndex ?acc1)"
    proof (cases "?acc1 = acc")
      case True
      with srt show ?thesis by simp
    next
      case False
      with shape have a1: "?acc1 = acc @ [?new]" by simp
      from loop_passes_extends [OF run] obtain ext where "produced = ?acc1 @ ext"
        by blast
      with a1 have "butlast produced = acc @ butlast (?new # ext)"
        by (simp add: butlast_append)
      with early have "list_all (\<lambda>c. endIndex c < js_length text) acc"
        by simp
      with Suc.prems(4) have "\<forall>c\<in>set acc. startIndex c < start"
        by (simp add: list_all_iff)
      with srt a1 show ?thesis
        by (simp add: sorted_wrt_append)
    qed
    with IH early show ?thesis by blast
  qed
  with IH show ?case by blast
qed

text \<open>The loop on \<open>513\<close> letters \<open>a\<close>, a text without full stops and white space.\<close>

lemma last_index_below_absent:
  "c \<notin> set text \<Longrightarrow> n \<le> length text \<Longrightarrow> last_index_below text c n = - 1"
  by (induction n) auto

lemma lastIndexOf_absent:
  assumes "c \<notin> set text"
  shows "lastIndexOf text c i = - 1"
proof -
  have "nat (min (max i 0) (js_length text - 1) + 1) \<le> length text"
    by (cases "text") (auto simp: js_length_def)
  with assms show ?thesis
    unfolding lastIndexOf_def by (rule last_index_below_absent)
qed

lemma dropWhile_none: "\<forall>c\<in>set xs. \<not> P c \<Longrightarrow> dropWhile P xs = xs"
  by (cases xs) auto

lemma trim_no_whitespace: "\<forall>c\<in>set s. \<not> is_whitespace c \<Longrightarrow> trim s = s"
  by (simp add: trim_def dropWhile_none)

lemma js_slice_replicate:
  "0 \<le> s \<Longrightarrow> s \<le> e \<Longrightarrow> e \<le> int n \<Longrightarrow> js_slice (replicate n a) s e = replicate (nat (e - s)) a"
  by (auto simp: js_slice_def js_length_def Let_def min_def)

lemma chunk_end_letters:
  "chunk_end (replicate 513 (0x61 :: utf16)) 0 = 512"
  "chunk_end (replicate 513 (0x61 :: utf16)) 462 = 513"
  "chunk_end (replicate 513 (0x61 :: utf16)) 463 = 513"
  by (simp_all add: chunk_end_def Let_def CHUNK_SIZE_def js_length_def lastIndexOf_absent
      full_stop_def space_char_def)

lemma push_chunk_letters:
  "0 \<le> s \<Longrightarrow> s < e \<Longrightarrow> e \<le> 513 \<Longrightarrow>
   push_chunk (replicate 513 (0x61 :: utf16)) s e acc =
     acc @ [\<lparr>content = replicate (nat (e - s)) 0x61, startIndex = s, endIndex = e\<rparr>]"
  by (simp add: push_chunk_def js_slice_replicate trim_no_whitespace is_whitespace_def js_length_def)

lemma loop_passes_numeral:
  "loop_passes (numeral k) text start acc =
     (if start < js_length text then
        (if next_start text start \<ge> js_length text then None
         else loop_passes (pred_numeral k) text (next_start text start)
                (push_chunk text start (chunk_end text start) acc))
      else None)"
  by (simp add: numeral_eq_Suc)

lemma loop_passes_one:
  "loop_passes 1 text start acc =
     (if start < js_length text then
        (if next_start text start \<ge> js_length text then None
         else Some (next_start text start, push_chunk text start (chunk_end text start) acc))
      else None)"
  by (simp add: One_nat_def [symmetric] del: One_nat_def) (simp add: One_nat_def)

lemma loop_passes_letters:
  "loop_passes 2 (replicate 513 (0x61 :: utf16)) 0 [] =
     Some (463, [\<lparr>content = replicate 512 0x61, startIndex = 0, endIndex = 512\<rparr>,
                 \<lparr>content = replicate 51 0x61, startIndex = 462, endIndex = 513\<rparr>])"
  "loop_passes 4 (replicate 513 (0x61 :: utf16)) 0 [] =
     Some (463, [\<lparr>content = replicate 512 0x61, startIndex = 0, endIndex = 512\<rparr>,
                 \<lparr>content = replicate 51 0x61, startIndex = 462, endIndex = 513\<rparr>,
                 \<lparr>content = replicate 50 0x61, startIndex = 463, endIndex = 513\<rparr>,
                 \<lparr>content = replicate 50 0x61, startIndex = 463, endIndex = 513\<rparr>])"
  by (simp_all add: loop_passes_numeral loop_passes_one next_start_def chunk_end_letters
      push_chunk_letters CHUNK_OVERLAP_def js_length_def)

text \<open>
  After the first window that ends at the end of the text the start stays at \<open>463\<close>, and
  the chunk that starts there is pushed again in every pass.
\<close>

lemma loop_passes_repeats_start:
  "\<exists>start produced.
     loop_passes 4 (replicate 513 (0x61 :: utf16)) 0 [] = Some (start, produced) \<and>
     map startIndex produced = [0, 462, 463, 463] \<and> \<not> chunk_offsets_ok produced"
  by (simp add: loop_passes_letters chunk_offsets_ok_def)

text \<open>
  C3, amended. For every text of at most 512 code units that is not empty, \<open>chunkText\<close>
  returns one chunk, which ends after its start. For every longer text and every number
  of passes of the loop, every chunk produced so far ends after its start, and as long
  as no chunk but the last one produced ends at the end of the text, the start offsets
  strictly increase along the produced sequence.
\<close>

theorem chunkText_offsets:
  "(text \<noteq> [] \<and> js_length text \<le> CHUNK_SIZE \<longrightarrow>
      (\<exists>c. chunkText text = Some [c] \<and> chunk_offsets_ok [c])) \<and>
   (CHUNK_SIZE < js_length text \<longrightarrow>
      (\<exists>start produced.
         loop_passes n text 0 [] = Some (start, produced) \<and>
         list_all (\<lambda>c. startIndex c < endIndex c) produced \<and>
         (list_all (\<lambda>c. endIndex c < js_length text) (butlast produced) \<longrightarrow>
          chunk_offsets_ok produced)))"
proof (intro conjI impI)
  assume "text \<noteq> [] \<and> js_length text \<le> CHUNK_SIZE"
  then show "\<exists>c. chunkText text = Some [c] \<and> chunk_offsets_ok [c]"
    by (simp add: chunkText_def chunk_offsets_ok_def js_length_def)
next
  assume long: "CHUNK_SIZE < js_length text"
  then have inside: "0 < js_length text" and room: "0 + CHUNK_OVERLAP \<le> js_length text"
    by (simp_all add: CHUNK_SIZE_def CHUNK_OVERLAP_def)
  from loop_passes_continues [OF inside] obtain start produced
    where run: "loop_passes n text 0 [] = Some (start, produced)"
    by blast
  from loop_passes_offsets [OF run room]
  have "list_all (\<lambda>c. startIndex c < endIndex c) produced"
    and "list_all (\<lambda>c. endIndex c < js_length text) (butlast produced) \<longrightarrow>
         sorted_wrt (<) (map startIndex produced)"
    by simp_all
  with run show "\<exists>start produced.
         loop_passes n text 0 [] = Some (start, produced) \<and>
         list_all (\<lambda>c. startIndex c < endIndex c) produced \<and>
         (list_all (\<lambda>c. endIndex c < js_length text) (butlast produced) \<longrightarrow>
          chunk_offsets_ok produced)"
    by (auto simp: chunk_offsets_ok_def)
qed

theorem chunkText_offsets_witness:
  "[0x61, 0x62 :: utf16] \<noteq> [] \<and> js_length [0x61, 0x62 :: utf16] \<le> CHUNK_SIZE \<and>
   chunkText [0x61, 0x62] = Some [\<lparr>content = [0x61, 0x62], startIndex = 0, endIndex = 2\<rparr>] \<and>
   chunk_offsets_ok [\<lparr>content = [0x61, 0x62], startIndex = 0, endIndex = 2\<rparr>] \<and>
   CHUNK_SIZE < js_length (replicate 513 (0x61 :: utf16)) \<and>
   loop_passes 2 (replicate 513 (0x61 :: utf16)) 0 [] =
     Some (463, [\<lparr>content = replicate 512 0x61, startIndex = 0, endIndex = 512\<rparr>,
                 \<lparr>content = replicate 51 0x61, startIndex = 462, endIndex = 513\<rparr>]) \<and>
   list_all (\<lambda>c. endIndex c < js_length (replicate 513 (0x61 :: utf16)))
     (butlast [\<lparr>content = replicate 512 0x61, startIndex = 0, endIndex = 512\<rparr>,
               \<lparr>content = replicate 51 0x61, startIndex = 462, endIndex = 513\<rparr>]) \<and>
   chunk_offsets_ok [\<lparr>content = replicate 512 0x61, startIndex = 0, endIndex = 512\<rparr>,
                     \<lparr>content = replicate 51 0x61, startIndex = 462, endIndex = 513\<rparr>]"
proof -
  let ?letters = "replicate 513 (0x61 :: utf16)"
  let ?two = "[\<lparr>content = replicate 512 (0x61 :: utf16), startIndex = 0, endIndex = 512\<rparr>,
               \<lparr>content = replicate 51 0x61, startIndex = 462, endIndex = 513\<rparr>]"
  have s: "[0x61, 0x62 :: utf16] \<noteq> [] \<and> js_length [0x61, 0x62 :: utf16] \<le> CHUNK_SIZE"
    by (simp add: js_length_def CHUNK_SIZE_def)
  have l: "CHUNK_SIZE < js_length ?letters"
    by (simp add: js_length_def CHUNK_SIZE_def)
  have e: "list_all (\<lambda>c. endIndex c < js_length ?letters) (butlast ?two)"
    by (simp add: js_length_def)
  from chunkText_offsets [of "[0x61, 0x62]" 0] s
  obtain c where "chunkText [0x61, 0x62] = Some [c]" "chunk_offsets_ok [c]"
    by blast
  then have short: "chunkText [0x61, 0x62] = Some [\<lparr>content = [0x61, 0x62], startIndex = 0, endIndex = 2\<rparr>]"
    "chunk_offsets_ok [\<lparr>content = [0x61, 0x62], startIndex = 0, endIndex = 2\<rparr>]"
    by (simp_all add: chunkText_def CHUNK_SIZE_def js_length_def split: if_splits)
  from chunkText_offsets [of ?letters 2] l
  obtain start produced where run: "loop_passes 2 ?letters 0 [] = Some (start, produced)"
    and ok: "list_all (\<lambda>c. endIndex c < js_length ?letters) (butlast produced) \<longrightarrow> chunk_offsets_ok produced"
    by blast
  from run have "produced = ?two"
    by (simp add: loop_passes_letters(1))
  with e ok have "chunk_offsets_ok ?two"
    by blast
  with s l e short loop_passes_letters(1) show ?thesis
    by (intro conjI) simp_all
qed

section \<open>Properties of the similarity engine\<close>

text \<open>
  C5. For vectors of unequal length \<open>cosineSimilarity\<close> always throws the dimension
  mismatch error and returns no number; for vectors of equal length it returns a number
  and throws nothing.
\<close>

theorem cosineSimilarity_dimension_check:
  "(cosineSimilarity a b = Inl DimensionMismatch \<longleftrightarrow> length a \<noteq> length b) \<and>
   ((\<exists>x. cosineSimilarity a b = Inr x) \<longleftrightarrow> length a = length b)"
  by (auto simp: cosineSimilarity_def split: prod.splits)

theorem cosineSimilarity_dimension_check_witness:
  "cosineSimilarity [Num 1, Num 0] [Num 1] = Inl DimensionMismatch \<and>
   length [Num 1, Num 0] \<noteq> length [Num 1] \<and>
   cosineSimilarity [Num 1, Num 0] [Num 0, Num 2] = Inr (Num 0) \<and>
   length [Num 1, Num 0] = length [Num 0, Num 2]"
  using cosineSimilarity_dimension_check [of "[Num 1, Num 0]" "[Num 1]"]
  by (simp add: cosineSimilarity_def cosine_step_def)

section \<open>Order of numbers and the sort\<close>

text \<open>
  The comparator of the search is positive exactly when its first argument has the
  smaller similarity; with a \<open>NaN\<close> on either side it is never positive.
\<close>

lemma js_sub_positive: "js_lt (Num 0) (js_sub b a) = js_lt a b"
  by (cases a; cases b) (simp_all add: js_sub_def)

lemma js_lt_irrefl: "\<not> js_lt a a"
  by (cases a) simp_all

lemma js_lt_asym: "js_lt a b \<Longrightarrow> \<not> js_lt b a"
  by (cases a; cases b) simp_all

lemma js_lt_imp_ge: "js_lt a b \<Longrightarrow> js_ge b a"
  by (cases a; cases b) (simp_all add: js_ge_def)

lemma js_ge_trans: "js_ge a b \<Longrightarrow> js_ge b c \<Longrightarrow> js_ge a c"
  by (cases a; cases b; cases c) (simp_all add: js_ge_def)

lemma by_similarity_positive:
  "js_lt (Num 0) (by_similarity x y) = js_lt (similarity x) (similarity y)"
  by (simp add: by_similarity_def js_sub_positive)

text \<open>The sort permutes its input, whatever the comparator.\<close>

lemma mset_insert_by: "mset (insert_by cmp x ys) = add_mset x (mset ys)"
  by (induction ys) simp_all

lemma mset_js_sort: "mset (js_sort cmp xs) = mset xs"
  by (induction xs) (simp_all add: mset_insert_by)

lemma set_js_sort: "set (js_sort cmp xs) = set xs"
  using mset_js_sort [of cmp xs] by (metis set_mset_mset)

lemma length_js_sort: "length (js_sort cmp xs) = length xs"
  using mset_js_sort [of cmp xs] by (metis size_mset)

lemma set_insert_by: "set (insert_by cmp x ys) = insert x (set ys)"
  using mset_insert_by [of cmp x ys] by (metis set_mset_mset set_mset_add_mset_insert)

text \<open>When no similarity is \<open>NaN\<close>, the sorted list is in descending order.\<close>

lemma descending_insert_by:
  assumes "descending ys" and "similarity x \<noteq> NaN" and "\<forall>y\<in>set ys. similarity y \<noteq> NaN"
  shows "descending (insert_by by_similarity x ys)"
  using assms
proof (induction ys)
  case Nil
  then show ?case by (simp add: descending_def)
next
  case (Cons y ys)
  show ?case
  proof (cases "js_lt (similarity x) (similarity y)")
    case True
    then have "js_ge (similarity y) (similarity x)"
      by (rule js_lt_imp_ge)
    moreover from Cons.prems have "descending ys" "\<forall>z\<in>set ys. js_ge (similarity y) (similarity z)"
      by (simp_all add: descending_def)
    moreover from Cons have "descending (insert_by by_similarity x ys)"
      by (simp add: descending_def)
    ultimately show ?thesis
      using True by (simp add: by_similarity_positive descending_def set_insert_by)
  next
    case False
    with Cons.prems have xy: "js_ge (similarity x) (similarity y)"
      by (simp add: js_ge_def)
    from Cons.prems have "\<forall>z\<in>set ys. js_ge (similarity y) (similarity z)"
      by (simp add: descending_def)
    with xy have "\<forall>z\<in>set ys. js_ge (similarity x) (similarity z)"
      by (blast intro: js_ge_trans)
    with xy Cons.prems False show ?thesis
      by (simp add: by_similarity_positive descending_def)
  qed
qed

lemma descending_js_sort:
  "\<forall>x\<in>set xs. similarity x \<noteq> NaN \<Longrightarrow> descending (js_sort by_similarity xs)"
proof (induction xs)
  case Nil
  then show ?case by (simp add: descending_def)
next
  case (Cons x xs)
  then show ?case
    by (simp add: descending_insert_by set_js_sort)
qed

text \<open>
  Stability: the entries of any one similarity keep their original order. This needs no
  assumption on the similarities.
\<close>

lemma filter_insert_by_similarity:
  "filter (\<lambda>r. similarity r = v) (insert_by by_similarity x ys) =
     filter (\<lambda>r. similarity r = v) (x # ys)"
proof (induction ys)
  case Nil
  show ?case by simp
next
  case (Cons y ys)
  show ?case
  proof (cases "js_lt (similarity x) (similarity y)")
    case True
    then have "\<not> (similarity x = v \<and> similarity y = v)"
      using js_lt_irrefl [of v] by auto
    with True Cons.IH show ?thesis
      by (auto simp: by_similarity_positive)
  next
    case False
    then show ?thesis
      by (simp add: by_similarity_positive)
  qed
qed

lemma js_sort_stable:
  "filter (\<lambda>r. similarity r = v) (js_sort by_similarity xs) = filter (\<lambda>r. similarity r = v) xs"
  by (induction xs) (simp_all add: filter_insert_by_similarity)

text \<open>\<open>slice(0, k)\<close>: its length, and the two cases in which it is a plain prefix.\<close>

lemma length_js_slice_from_zero:
  "js_length (js_slice xs 0 k) = (if k < 0 then max (js_length xs + k) 0 else min k (js_length xs))"
  by (auto simp: js_slice_def js_length_def Let_def)

lemma js_slice_take: "0 \<le> k \<Longrightarrow> js_slice xs 0 k = take (nat k) xs"
  by (auto simp: js_slice_def js_length_def Let_def min_def)

lemma js_slice_all: "js_length xs \<le> k \<Longrightarrow> js_slice xs 0 k = xs"
  by (auto simp: js_slice_def js_length_def Let_def min_def)

text \<open>
  On a descending list the threshold filter keeps a prefix, so filtering commutes with
  taking the first \<open>k\<close> entries.
\<close>

lemma filter_take_descending:
  assumes "descending xs"
  shows "filter (\<lambda>r. js_ge (similarity r) t) (take k xs) = take k (filter (\<lambda>r. js_ge (similarity r) t) xs)"
  using assms
proof (induction xs arbitrary: k)
  case Nil
  show ?case by simp
next
  case (Cons x xs)
  from Cons.prems have d: "descending xs" and above: "\<forall>y\<in>set xs. js_ge (similarity x) (similarity y)"
    by (simp_all add: descending_def)
  show ?case
  proof (cases k)
    case 0
    then show ?thesis by simp
  next
    case (Suc k')
    show ?thesis
    proof (cases "js_ge (similarity x) t")
      case True
      with Suc Cons.IH [OF d] show ?thesis by simp
    next
      case False
      have "\<forall>y\<in>set xs. \<not> js_ge (similarity y) t"
        using above False by (blast intro: js_ge_trans)
      then have "filter (\<lambda>r. js_ge (similarity r) t) xs = []"
        by (simp add: filter_empty_conv)
      moreover have "filter (\<lambda>r. js_ge (similarity r) t) (take k' xs) = []"
        using \<open>\<forall>y\<in>set xs. \<not> js_ge (similarity y) t\<close>
        by (auto simp: filter_empty_conv dest: in_set_takeD)
      ultimately show ?thesis
        using Suc False by simp
    qed
  qed
qed

section \<open>Properties of the search\<close>

text \<open>
  Scoring keeps the candidates and their order; it fails exactly when some embedding
  has another length than the query embedding, and then with the dimension mismatch.
\<close>

lemma score_chunks_chunks:
  "score_chunks qe cands = Inr scored \<Longrightarrow> map chunk scored = cands"
  by (induction cands arbitrary: scored) (auto split: sum.splits)

lemma score_chunks_similarity:
  "score_chunks qe cands = Inr scored \<Longrightarrow>
   list_all (\<lambda>s. cosineSimilarity qe (embedding (chunk s)) = Inr (similarity s)) scored"
  by (induction cands arbitrary: scored) (auto split: sum.splits)

lemma score_chunks_error:
  "score_chunks qe cands = Inl e \<Longrightarrow> e = DimensionMismatch"
  by (induction cands) (auto simp: cosineSimilarity_def split: sum.splits if_splits prod.splits)

lemma score_chunks_returns_iff:
  "(\<exists>scored. score_chunks qe cands = Inr scored) \<longleftrightarrow>
   (\<forall>c\<in>set cands. length (embedding c) = length qe)"
  by (induction cands) (auto simp: cosineSimilarity_def split: sum.splits if_splits prod.splits)

lemma searchSimilarChunks_scored:
  assumes "generateEmbedding query = Inr qe" and "score_chunks qe cands = Inr scored"
  shows "searchSimilarChunks generateEmbedding query cands k =
           Inr (js_slice (js_sort by_similarity scored) 0 k)"
proof (cases cands)
  case Nil
  with assms(2) have "scored = []" by simp
  with Nil show ?thesis
    by (simp add: searchSimilarChunks_def js_length_def js_slice_def)
next
  case (Cons c cs)
  with assms show ?thesis
    by (simp add: searchSimilarChunks_def js_length_def)
qed

lemma searchSimilarChunks_returns:
  assumes "searchSimilarChunks generateEmbedding query cands k = Inr results" and "cands \<noteq> []"
  shows "\<exists>qe scored. generateEmbedding query = Inr qe \<and> score_chunks qe cands = Inr scored \<and>
           results = js_slice (js_sort by_similarity scored) 0 k"
  using assms by (auto simp: searchSimilarChunks_def js_length_def split: sum.splits)

lemma example_similarities:
  "cosineSimilarity [Num 1, Num 0] (embedding chunk_A) = Inr (Num 0)"
  "cosineSimilarity [Num 1, Num 0] (embedding chunk_B) = Inr (Num 1)"
  "cosineSimilarity [Num 1, Num 0] (embedding chunk_C) = Inr (Num 0)"
  "cosineSimilarity [Num 1, Num 0] (embedding chunk_Z) = Inr NaN"
  "cosineSimilarity [Num 1, Num 0] (embedding chunk_M) = Inl DimensionMismatch"
  by (simp_all add: chunk_A_def chunk_B_def chunk_C_def chunk_Z_def chunk_M_def example_chunk_def
      cosineSimilarity_def cosine_step_def infinity_of_sign_def)

lemma example_search_ABC:
  "searchSimilarChunks example_embedder q [chunk_A, chunk_B, chunk_C] 3 =
     Inr [\<lparr>chunk = chunk_B, similarity = Num 1\<rparr>, \<lparr>chunk = chunk_A, similarity = Num 0\<rparr>,
          \<lparr>chunk = chunk_C, similarity = Num 0\<rparr>]"
  by (simp add: searchSimilarChunks_def example_embedder_def example_similarities js_length_def
      by_similarity_positive js_slice_def)

text \<open>
  C6, as stated, fails on candidates whose similarity is \<open>NaN\<close>. The comparator returns
  \<open>NaN\<close> for every pair with such a candidate, the sort takes that for a tie and the
  candidate stays where it was: a zero-vector candidate listed first is ranked ahead of
  a candidate of similarity \<open>1\<close>, and placed between two others it keeps the candidate
  of similarity \<open>0\<close> ahead of the one of similarity \<open>1\<close>.
\<close>

theorem searchSimilarChunks_NaN_counterexample:
  "searchSimilarChunks example_embedder [0x71] [chunk_Z, chunk_B] 2 =
     Inr [\<lparr>chunk = chunk_Z, similarity = NaN\<rparr>, \<lparr>chunk = chunk_B, similarity = Num 1\<rparr>] \<and>
   \<not> descending [\<lparr>chunk = chunk_Z, similarity = NaN\<rparr>, \<lparr>chunk = chunk_B, similarity = Num 1\<rparr>] \<and>
   searchSimilarChunks example_embedder [0x71] [chunk_A, chunk_Z, chunk_B] 3 =
     Inr [\<lparr>chunk = chunk_A, similarity = Num 0\<rparr>, \<lparr>chunk = chunk_Z, similarity = NaN\<rparr>,
          \<lparr>chunk = chunk_B, similarity = Num 1\<rparr>] \<and>
   \<not> descending [\<lparr>chunk = chunk_A, similarity = Num 0\<rparr>, \<lparr>chunk = chunk_Z, similarity = NaN\<rparr>,
                  \<lparr>chunk = chunk_B, similarity = Num 1\<rparr>] \<and>
   js_lt (Num 0) (Num 1)"
  by (simp add: searchSimilarChunks_def example_embedder_def example_similarities js_length_def
      by_similarity_positive js_slice_def descending_def js_ge_def)

text \<open>
  C6, amended. When the query is embedded and every candidate's similarity to it is a
  number other than \<open>NaN\<close> (so every embedding has the length of the query embedding),
  the search returns \<open>slice(0, k)\<close> of a ranking that holds every scored candidate once,
  is in descending order of similarity, and keeps candidates of equal similarity in
  their original order; when \<open>k\<close> is at least the number of candidates the result is
  the whole ranking, so every candidate appears.
\<close>

theorem searchSimilarChunks_ranking:
  assumes "generateEmbedding query = Inr qe"
    and "score_chunks qe cands = Inr scored"
    and "\<forall>s\<in>set scored. similarity s \<noteq> NaN"
  shows "map chunk scored = cands \<and>
         (\<exists>ranked.
           searchSimilarChunks generateEmbedding query cands k = Inr (js_slice ranked 0 k) \<and>
           mset ranked = mset scored \<and>
           descending ranked \<and>
           (\<forall>v. filter (\<lambda>r. similarity r = v) ranked = filter (\<lambda>r. similarity r = v) scored) \<and>
           (js_length cands \<le> k \<longrightarrow> js_slice ranked 0 k = ranked))"
proof -
  let ?ranked = "js_sort by_similarity scored"
  have c: "map chunk scored = cands"
    using assms(2) by (rule score_chunks_chunks)
  then have "length scored = length cands"
    by (metis length_map)
  then have "js_length cands \<le> k \<longrightarrow> js_slice ?ranked 0 k = ?ranked"
    by (simp add: js_slice_all js_length_def length_js_sort)
  moreover have "descending ?ranked"
    using assms(3) by (rule descending_js_sort)
  ultimately show ?thesis
    using c
      searchSimilarChunks_scored [where generateEmbedding = generateEmbedding and query = query,
        OF assms(1,2)]
      mset_js_sort [of by_similarity scored] js_sort_stable [of _ scored]
    by blast
qed

theorem searchSimilarChunks_ranking_witness:
  "example_embedder [0x71] = Inr [Num 1, Num 0] \<and>
   score_chunks [Num 1, Num 0] [chunk_A, chunk_B, chunk_C] =
     Inr [\<lparr>chunk = chunk_A, similarity = Num 0\<rparr>, \<lparr>chunk = chunk_B, similarity = Num 1\<rparr>,
          \<lparr>chunk = chunk_C, similarity = Num 0\<rparr>] \<and>
   searchSimilarChunks example_embedder [0x71] [chunk_A, chunk_B, chunk_C] 3 =
     Inr [\<lparr>chunk = chunk_B, similarity = Num 1\<rparr>, \<lparr>chunk = chunk_A, similarity = Num 0\<rparr>,
          \<lparr>chunk = chunk_C, similarity = Num 0\<rparr>] \<and>
   (\<exists>ranked.
      searchSimilarChunks example_embedder [0x71] [chunk_A, chunk_B, chunk_C] 3 =
        Inr (js_slice ranked 0 3) \<and>
      descending ranked \<and> js_slice ranked 0 3 = ranked)"
proof -
  let ?scored = "[\<lparr>chunk = chunk_A, similarity = Num 0\<rparr>, \<lparr>chunk = chunk_B, similarity = Num 1\<rparr>,
                  \<lparr>chunk = chunk_C, similarity = Num 0\<rparr>]"
  have e: "example_embedder [0x71] = Inr [Num 1, Num 0]"
    by (simp add: example_embedder_def)
  have s: "score_chunks [Num 1, Num 0] [chunk_A, chunk_B, chunk_C] = Inr ?scored"
    by (simp add: example_similarities)
  have n: "\<forall>s\<in>set ?scored. similarity s \<noteq> NaN"
    by simp
  have l: "js_length [chunk_A, chunk_B, chunk_C] \<le> 3"
    by (simp add: js_length_def)
  from searchSimilarChunks_ranking [where generateEmbedding = example_embedder and query = "[0x71]",
      OF e s n, of 3] l
  have "\<exists>ranked.
      searchSimilarChunks example_embedder [0x71] [chunk_A, chunk_B, chunk_C] 3 =
        Inr (js_slice ranked 0 3) \<and>
      descending ranked \<and> js_slice ranked 0 3 = ranked"
    by blast
  with e s example_search_ABC [of "[0x71]"] show ?thesis
    by simp
qed

text \<open>
  C2, as stated, fails: the code truncates first (inside the search) and filters
  afterwards. With a zero-vector candidate ahead of a candidate of similarity \<open>1\<close>,
  \<open>k = 1\<close> and threshold \<open>0.5\<close>, the top-1 truncation keeps the \<open>NaN\<close> candidate, which
  the filter then drops, and nothing is returned; filtering first and truncating
  afterwards returns the candidate of similarity \<open>1\<close>.
\<close>

theorem filteredResults_NaN_counterexample:
  "filteredResults example_embedder [0x71] [chunk_Z, chunk_B] 1 (Num (1 / 2)) = Inr [] \<and>
   query_filter_then_truncate example_embedder [0x71] [chunk_Z, chunk_B] 1 (Num (1 / 2)) =
     Inr [\<lparr>chunk = chunk_B, similarity = Num 1\<rparr>]"
  by (simp add: filteredResults_def query_filter_then_truncate_def searchSimilarChunks_def
      example_embedder_def example_similarities js_length_def by_similarity_positive js_slice_def
      js_ge_def)

text \<open>
  C2, amended. The code truncates the ranking to the top \<open>k\<close> and then filters by the
  threshold. For every query, candidate list in which no similarity is \<open>NaN\<close>,
  \<open>k \<ge> 0\<close> and threshold, the result of that equals the first \<open>k\<close> entries of the
  threshold-filtered descending ranking.
\<close>

theorem filteredResults_filter_then_truncate:
  assumes "generateEmbedding query = Inr qe"
    and "score_chunks qe cands = Inr scored"
    and "\<forall>s\<in>set scored. similarity s \<noteq> NaN"
    and "0 \<le> k"
  shows "filteredResults generateEmbedding query cands k t =
           query_filter_then_truncate generateEmbedding query cands k t"
proof (cases cands)
  case Nil
  then show ?thesis
    by (simp add: filteredResults_def query_filter_then_truncate_def js_length_def)
next
  case (Cons c cs)
  have d: "descending (js_sort by_similarity scored)"
    using assms(3) by (rule descending_js_sort)
  have "filteredResults generateEmbedding query cands k t =
          Inr (filter (\<lambda>r. js_ge (similarity r) t) (take (nat k) (js_sort by_similarity scored)))"
    using Cons assms(4)
      searchSimilarChunks_scored [where generateEmbedding = generateEmbedding and query = query,
        OF assms(1,2), of k]
    by (simp add: filteredResults_def js_length_def js_slice_take)
  also have "\<dots> = Inr (take (nat k) (filter (\<lambda>r. js_ge (similarity r) t) (js_sort by_similarity scored)))"
    using filter_take_descending [OF d] by simp
  also have "\<dots> = query_filter_then_truncate generateEmbedding query cands k t"
    using Cons assms(1,2) by (simp add: query_filter_then_truncate_def)
  finally show ?thesis .
qed

theorem filteredResults_filter_then_truncate_witness:
  "example_embedder [0x71] = Inr [Num 1, Num 0] \<and>
   score_chunks [Num 1, Num 0] [chunk_A, chunk_B, chunk_C] =
     Inr [\<lparr>chunk = chunk_A, similarity = Num 0\<rparr>, \<lparr>chunk = chunk_B, similarity = Num 1\<rparr>,
          \<lparr>chunk = chunk_C, similarity = Num 0\<rparr>] \<and>
   (0 :: int) \<le> 2 \<and>
   filteredResults example_embedder [0x71] [chunk_A, chunk_B, chunk_C] 2 (Num 0) =
     Inr [\<lparr>chunk = chunk_B, similarity = Num 1\<rparr>, \<lparr>chunk = chunk_A, similarity = Num 0\<rparr>] \<and>
   query_filter_then_truncate example_embedder [0x71] [chunk_A, chunk_B, chunk_C] 2 (Num 0) =
     Inr [\<lparr>chunk = chunk_B, similarity = Num 1\<rparr>, \<lparr>chunk = chunk_A, similarity = Num 0\<rparr>]"
proof -
  let ?scored = "[\<lparr>chunk = chunk_A, similarity = Num 0\<rparr>, \<lparr>chunk = chunk_B, similarity = Num 1\<rparr>,
                  \<lparr>chunk = chunk_C, similarity = Num 0\<rparr>]"
  have e: "example_embedder [0x71] = Inr [Num 1, Num 0]"
    by (simp add: example_embedder_def)
  have s: "score_chunks [Num 1, Num 0] [chunk_A, chunk_B, chunk_C] = Inr ?scored"
    by (simp add: example_similarities)
  have n: "\<forall>s\<in>set ?scored. similarity s \<noteq> NaN"
    by simp
  have k: "(0 :: int) \<le> 2" by simp
  have q: "query_filter_then_truncate example_embedder [0x71] [chunk_A, chunk_B, chunk_C] 2 (Num 0) =
     Inr [\<lparr>chunk = chunk_B, similarity = Num 1\<rparr>, \<lparr>chunk = chunk_A, similarity = Num 0\<rparr>]"
    by (simp add: query_filter_then_truncate_def example_embedder_def example_similarities
        by_similarity_positive js_ge_def)
  from filteredResults_filter_then_truncate
    [where generateEmbedding = example_embedder and query = "[0x71]", OF e s n k, of "Num 0"] q e s
  show ?thesis by simp
qed

text \<open>
  C9, as stated, fails in two ways. For a negative \<open>topK\<close> the slice counts from the
  end: with three candidates and \<open>topK = -1\<close> the search returns two results, not
  \<open>min(topK, 3)\<close>. And a candidate whose embedding has another length than the query
  embedding makes the search throw, so that it returns no results at all.
\<close>

theorem searchSimilarChunks_count_counterexample:
  "searchSimilarChunks example_embedder [0x71] [chunk_A, chunk_B, chunk_C] (- 1) =
     Inr [\<lparr>chunk = chunk_B, similarity = Num 1\<rparr>, \<lparr>chunk = chunk_A, similarity = Num 0\<rparr>] \<and>
   js_length [\<lparr>chunk = chunk_B, similarity = Num 1\<rparr>, \<lparr>chunk = chunk_A, similarity = Num 0\<rparr>] \<noteq>
     min (- 1) (js_length [chunk_A, chunk_B, chunk_C]) \<and>
   searchSimilarChunks example_embedder [0x71] [chunk_B, chunk_M] 5 = Inl DimensionMismatch"
  by (simp add: searchSimilarChunks_def example_embedder_def example_similarities js_length_def
      by_similarity_positive js_slice_def)

text \<open>
  C9, amended. Whenever the search returns on a non-empty candidate list with
  \<open>topK \<ge> 0\<close>, it returns exactly \<open>min(topK, number of candidates)\<close> results, whatever
  the similarities are (\<open>NaN\<close> and arbitrarily low ones included); with \<open>topK\<close> at least
  the number of candidates the results hold every candidate once. The search itself
  excludes nothing by similarity.
\<close>

theorem searchSimilarChunks_count:
  assumes "searchSimilarChunks generateEmbedding query cands topK = Inr results"
    and "cands \<noteq> []"
    and "0 \<le> topK"
  shows "js_length results = min topK (js_length cands) \<and>
         (js_length cands \<le> topK \<longrightarrow> mset (map chunk results) = mset cands)"
proof -
  from searchSimilarChunks_returns [OF assms(1,2)]
  obtain qe scored where s: "score_chunks qe cands = Inr scored"
    and r: "results = js_slice (js_sort by_similarity scored) 0 topK"
    by blast
  have c: "map chunk scored = cands"
    using s by (rule score_chunks_chunks)
  then have len: "js_length (js_sort by_similarity scored) = js_length cands"
    by (metis js_length_def length_js_sort length_map)
  have "js_length results = min topK (js_length cands)"
    using assms(3) len by (simp add: r length_js_slice_from_zero)
  moreover have "mset (map chunk results) = mset cands" if "js_length cands \<le> topK"
  proof -
    from that len have "results = js_sort by_similarity scored"
      by (simp add: r js_slice_all)
    then have "mset results = mset scored"
      by (simp add: mset_js_sort)
    then have "mset (map chunk results) = mset (map chunk scored)"
      by (metis mset_map)
    with c show ?thesis by simp
  qed
  ultimately show ?thesis by blast
qed

theorem searchSimilarChunks_count_witness:
  "searchSimilarChunks example_embedder [0x71] [chunk_Z, chunk_B, chunk_A] 2 =
     Inr [\<lparr>chunk = chunk_Z, similarity = NaN\<rparr>, \<lparr>chunk = chunk_B, similarity = Num 1\<rparr>] \<and>
   [chunk_Z, chunk_B, chunk_A] \<noteq> [] \<and> (0 :: int) \<le> 2 \<and>
   js_length [\<lparr>chunk = chunk_Z, similarity = NaN\<rparr>, \<lparr>chunk = chunk_B, similarity = Num 1\<rparr>] =
     min 2 (js_length [chunk_Z, chunk_B, chunk_A])"
proof -
  have r: "searchSimilarChunks example_embedder [0x71] [chunk_Z, chunk_B, chunk_A] 2 =
     Inr [\<lparr>chunk = chunk_Z, similarity = NaN\<rparr>, \<lparr>chunk = chunk_B, similarity = Num 1\<rparr>]"
    by (simp add: searchSimilarChunks_def example_embedder_def example_similarities js_length_def
        by_similarity_positive js_slice_def)
  have n: "[chunk_Z, chunk_B, chunk_A] \<noteq> []" by simp
  have k: "(0 :: int) \<le> 2" by simp
  from searchSimilarChunks_count [OF r n k] r n k show ?thesis by simp
qed

section \<open>Properties of the ingestion\<close>








section \<open>Properties of the document store\<close>

text \<open>
  The chunk deletions of the loop remove exactly the chunks whose key is among the keys
  that the index returned.
\<close>

lemma fold_delete_chunk_record:
  "fold delete_chunk_record ks db =
     db\<lparr>chunks := filter (\<lambda>c. chunk_id c \<notin> set ks) (chunks db)\<rparr>"
proof (induction ks arbitrary: db)
  case Nil
  show ?case by simp
next
  case (Cons k ks)
  have "filter (\<lambda>c. chunk_id c \<notin> set ks) (filter (\<lambda>c. chunk_id c \<noteq> k) (chunks db)) =
        filter (\<lambda>c. chunk_id c \<notin> set (k # ks)) (chunks db)"
    by (induction "chunks db") auto
  then show ?case
    by (simp add: Cons.IH) (simp add: delete_chunk_record_def)
qed

lemma deleteDocument_eq:
  "deleteDocument ident db =
     \<lparr>documents = filter (\<lambda>d. doc_id d \<noteq> ident) (documents db),
      chunks = filter (\<lambda>c. chunk_id c \<notin> chunk_id ` {c \<in> set (chunks db). documentId c = ident})
                 (chunks db)\<rparr>"
  by (simp add: deleteDocument_def Let_def fold_delete_chunk_record delete_document_record_def
      chunk_keys_by_document_def)

lemma getDocumentById_deleteDocument: "getDocumentById ident (deleteDocument ident db) = None"
  by (simp add: getDocumentById_def deleteDocument_eq find_None_iff)

lemma getChunksByDocumentId_deleteDocument:
  "getChunksByDocumentId ident (deleteDocument ident db) = []"
  by (auto simp: getChunksByDocumentId_def deleteDocument_eq filter_empty_conv)

text \<open>
  The invariant holds when the transaction begins and every step keeps it, an abort
  included.
\<close>

lemma tx_invariant_begin: "tx_invariant ident db (tx_begin db)"
  by (simp add: tx_invariant_def tx_begin_def)

lemma tx_invariant_step:
  assumes "tx_step ident s s'" and "tx_invariant ident db s"
  shows "tx_invariant ident db s'"
  using assms
proof (cases rule: tx_step.cases)
  case delete_document
  with assms(2) show ?thesis by (simp add: tx_invariant_def)
next
  case get_all_keys
  with assms(2) show ?thesis by (simp add: tx_invariant_def deleteDocument_def Let_def)
next
  case (delete_chunk chunkKey rest)
  with assms(2) show ?thesis by (simp add: tx_invariant_def)
next
  case commit
  with assms(2) show ?thesis by (simp add: tx_invariant_def)
next
  case abort
  with assms(2) show ?thesis
    by (cases "pc s") (simp_all add: tx_invariant_def)
qed

lemma tx_invariant_reachable:
  "(tx_step ident)\<^sup>*\<^sup>* (tx_begin db) s \<Longrightarrow> tx_invariant ident db s"
  by (induction rule: rtranclp_induct) (auto intro: tx_invariant_begin tx_invariant_step)

text \<open>The transaction can run to its commit, and then the store is \<open>deleteDocument ident db\<close>.\<close>

lemma tx_delete_chunks_run:
  "pc s = AtDeleteChunks ks \<Longrightarrow>
   (tx_step ident)\<^sup>*\<^sup>* s (s\<lparr>working := fold delete_chunk_record ks (working s), pc := AtDeleteChunks []\<rparr>)"
proof (induction ks arbitrary: s)
  case Nil
  then have "s\<lparr>working := fold delete_chunk_record [] (working s), pc := AtDeleteChunks []\<rparr> = s"
    by simp
  then show ?case by simp
next
  case (Cons k ks)
  let ?s1 = "s\<lparr>working := delete_chunk_record k (working s), pc := AtDeleteChunks ks\<rparr>"
  have "tx_step ident s ?s1"
    using Cons.prems by (rule tx_step.delete_chunk)
  moreover have "(tx_step ident)\<^sup>*\<^sup>* ?s1
      (?s1\<lparr>working := fold delete_chunk_record ks (working ?s1), pc := AtDeleteChunks []\<rparr>)"
    by (rule Cons.IH) simp
  ultimately show ?case by simp
qed

lemma deleteDocument_commits:
  "(tx_step ident)\<^sup>*\<^sup>* (tx_begin db)
     \<lparr>stored = deleteDocument ident db, working = deleteDocument ident db, pc = Committed\<rparr>"
proof -
  let ?db1 = "delete_document_record ident db"
  let ?ks = "chunk_keys_by_document ident ?db1"
  let ?s1 = "\<lparr>stored = db, working = ?db1, pc = AtGetAllKeys\<rparr>"
  let ?s2 = "\<lparr>stored = db, working = ?db1, pc = AtDeleteChunks ?ks\<rparr>"
  let ?s3 = "\<lparr>stored = db, working = deleteDocument ident db, pc = AtDeleteChunks []\<rparr>"
  let ?s4 = "\<lparr>stored = deleteDocument ident db, working = deleteDocument ident db, pc = Committed\<rparr>"
  have "tx_step ident (tx_begin db) ?s1"
    using tx_step.delete_document [of "tx_begin db" ident] by (simp add: tx_begin_def)
  moreover have "tx_step ident ?s1 ?s2"
    using tx_step.get_all_keys [of ?s1 ident] by simp
  moreover have "(tx_step ident)\<^sup>*\<^sup>* ?s2 ?s3"
    using tx_delete_chunks_run [of ?s2 ?ks ident] by (simp add: deleteDocument_def Let_def)
  moreover have "tx_step ident ?s3 ?s4"
    using tx_step.commit [of ?s3 ident] by simp
  ultimately show ?thesis
    by (meson converse_rtranclp_into_rtranclp rtranclp.rtrancl_into_rtrancl)
qed

lemma example_deleteDocument:
  "deleteDocument [0x64] example_db =
     \<lparr>documents = [example_document 0x65 [0x62]], chunks = [example_chunk 0x32 0x65 [Num 1]]\<rparr>"
  by (simp add: deleteDocument_def Let_def delete_document_record_def chunk_keys_by_document_def
      delete_chunk_record_def example_db_def example_document_def example_chunk_def)

text \<open>
  C7. After \<open>deleteDocument\<close> the document is absent and it has no chunks. The deletion
  is one unit: at every point that the transaction can reach, also after an abort at any
  request, the stores that others observe are either still the stores from before the
  call or, once committed, the stores with the document and all its chunks removed.
\<close>

theorem deleteDocument_atomic:
  assumes "(tx_step ident)\<^sup>*\<^sup>* (tx_begin db) s"
  shows "getDocumentById ident (deleteDocument ident db) = None \<and>
         getChunksByDocumentId ident (deleteDocument ident db) = [] \<and>
         stored s = (if pc s = Committed then deleteDocument ident db else db)"
proof -
  from assms have "tx_invariant ident db s"
    by (rule tx_invariant_reachable)
  then have "stored s = (if pc s = Committed then deleteDocument ident db else db)"
    by (cases "pc s") (simp_all add: tx_invariant_def)
  then show ?thesis
    by (simp add: getDocumentById_deleteDocument getChunksByDocumentId_deleteDocument)
qed

theorem deleteDocument_atomic_witness:
  "(tx_step [0x64])\<^sup>*\<^sup>* (tx_begin example_db)
     \<lparr>stored = deleteDocument [0x64] example_db, working = deleteDocument [0x64] example_db,
      pc = Committed\<rparr> \<and>
   getDocumentById [0x64] (deleteDocument [0x64] example_db) = None \<and>
   getChunksByDocumentId [0x64] (deleteDocument [0x64] example_db) = [] \<and>
   deleteDocument [0x64] example_db =
     \<lparr>documents = [example_document 0x65 [0x62]], chunks = [example_chunk 0x32 0x65 [Num 1]]\<rparr>"
  using deleteDocument_atomic [OF deleteDocument_commits [of "[0x64]" example_db]]
    deleteDocument_commits [of "[0x64]" example_db] example_deleteDocument
  by simp

text \<open>
  C10, as stated, fails on a store that holds a chunk of a document that is not stored
  (\<open>addDocumentChunks\<close> accepts such a chunk): \<open>deleteDocument\<close> with that document's
  identifier matches no stored document and still removes the chunk.
\<close>

theorem deleteDocument_orphan_counterexample:
  "addDocumentChunks [example_chunk 0x31 0x64 [Num 1]] \<lparr>documents = [], chunks = []\<rparr> =
     Inr \<lparr>documents = [], chunks = [example_chunk 0x31 0x64 [Num 1]]\<rparr> \<and>
   getDocumentById [0x64] \<lparr>documents = [], chunks = [example_chunk 0x31 0x64 [Num 1]]\<rparr> = None \<and>
   deleteDocument [0x64] \<lparr>documents = [], chunks = [example_chunk 0x31 0x64 [Num 1]]\<rparr> =
     \<lparr>documents = [], chunks = []\<rparr> \<and>
   \<lparr>documents = [], chunks = []\<rparr> \<noteq> \<lparr>documents = [], chunks = [example_chunk 0x31 0x64 [Num 1]]\<rparr>"
  by (simp add: addDocumentChunks_def getDocumentById_def deleteDocument_def Let_def
      delete_document_record_def chunk_keys_by_document_def delete_chunk_record_def
      example_chunk_def)

text \<open>
  C10, amended. \<open>deleteDocument\<close> with an identifier that matches no stored document and
  the \<open>documentId\<close> of no stored chunk completes (no request of it fails on a missing
  key) and leaves both the documents and the chunks unchanged.
\<close>

theorem deleteDocument_unknown_id:
  assumes "\<forall>d\<in>set (documents db). doc_id d \<noteq> ident"
    and "\<forall>c\<in>set (chunks db). documentId c \<noteq> ident"
  shows "deleteDocument ident db = db"
proof -
  have d: "filter (\<lambda>d. doc_id d \<noteq> ident) (documents db) = documents db"
    using assms(1) by (simp add: filter_id_conv)
  have c: "{c \<in> set (chunks db). documentId c = ident} = {}"
    using assms(2) by auto
  have "deleteDocument ident db = \<lparr>documents = documents db, chunks = chunks db\<rparr>"
    by (simp add: deleteDocument_eq d c)
  then show ?thesis
    by simp
qed

theorem deleteDocument_unknown_id_witness:
  "list_all (\<lambda>d. doc_id d \<noteq> [0x66]) (documents example_db) \<and>
   list_all (\<lambda>c. documentId c \<noteq> [0x66]) (chunks example_db) \<and>
   deleteDocument [0x66] example_db = example_db"
proof -
  have d: "\<forall>d\<in>set (documents example_db). doc_id d \<noteq> [0x66]"
    by (simp add: example_db_def example_document_def)
  have c: "\<forall>c\<in>set (chunks example_db). documentId c \<noteq> [0x66]"
    by (simp add: example_db_def example_chunk_def)
  from deleteDocument_unknown_id [OF d c] d c show ?thesis
    by (simp add: list_all_iff)
qed

end
